theory Spec2Isabelle
  imports Main "HOL-Library.Sublist"
begin

section \<open>The notes table\<close>

text \<open>
  \<^verbatim>\<open>models.py\<close> declares one table, \<^verbatim>\<open>notes\<close>, with the columns
  \<^verbatim>\<open>id = Column(Integer, primary_key=True, index=True)\<close>,
  \<^verbatim>\<open>title = Column(String, index=True)\<close>, \<^verbatim>\<open>content = Column(Text)\<close> and
  \<^verbatim>\<open>created_at = Column(DateTime, default=datetime.utcnow)\<close>.
  The field \<open>id\<close> is written \<open>note_id\<close> here, since \<open>id\<close> is the identity function
  of HOL. The column \<open>created_at\<close> is nullable, so its value is an option. A point of UTC
  time is an integer (microseconds since the epoch).
\<close>

type_synonym datetime = int

record Note =
  note_id :: int
  title :: string
  content :: string
  created_at :: "datetime option"

text \<open>
  \<^verbatim>\<open>database.py\<close> binds the session to \<^verbatim>\<open>sqlite:///./notes.db\<close>. The table is a
  B-tree keyed by the row id, for which the \<open>INTEGER PRIMARY KEY\<close> column \<open>id\<close> is an
  alias; a scan with no \<open>ORDER BY\<close> reads it in ascending row id order. The store is
  the list of rows in that order.
\<close>

type_synonym store = "Note list"

text \<open>
  The store a session can meet: the row ids are strictly ascending (the primary key is
  unique, the scan is in key order) and positive (the API never supplies an id, so every
  id was assigned by the engine, starting at 1).
\<close>

definition wf_store :: "store \<Rightarrow> bool" where
  "wf_store db = (sorted_wrt (<) (map note_id db) \<and> list_all (\<lambda>n. 0 < note_id n) db)"

text \<open>
  The id of a row inserted with no id given. The column is declared without
  \<open>AUTOINCREMENT\<close> (the docstring of \<^verbatim>\<open>models.Note\<close> gives the statement as
  \<^verbatim>\<open>CREATE TABLE notes (id INTEGER PRIMARY KEY, title VARCHAR, ...)\<close>), so the engine
  assigns one more than the largest row id in use, and 1 in an empty table. Row ids are
  modelled as unbounded integers, as Python's \<open>int\<close>.
\<close>

definition new_rowid :: "store \<Rightarrow> int" where
  "new_rowid db = (if db = [] then 1 else Max (set (map note_id db)) + 1)"

section \<open>The HTTP API: main.py\<close>

text \<open>
  The body of a create request after validation, \<^verbatim>\<open>schemas.NoteCreate\<close>: the handler
  reads its attributes \<open>title\<close> and \<open>content\<close> only.
\<close>

datatype NoteCreate = NoteCreate (req_title: string) (req_content: string)

text \<open>
  \<^verbatim>\<open>
  def create_note(note: schemas.NoteCreate, db: Session = Depends(database.get_db)):
      db_note = models.Note(title=note.title, content=note.content)
      db.add(db_note)      # Add to transaction
      db.commit()          # Save to file
      db.refresh(db_note)  # Reload to get the generated ID and created_at
      return db_note
  \<close>
  The insert leaves \<open>id\<close> to the engine and fills \<open>created_at\<close> with the column default,
  the value of \<^verbatim>\<open>datetime.utcnow()\<close> at the insert, here the argument \<open>now\<close>. The
  handler returns the row as reloaded, and the store with the row added.
\<close>

definition create_note :: "NoteCreate \<Rightarrow> datetime \<Rightarrow> store \<Rightarrow> Note \<times> store" where
  "create_note req now db =
     (let db_note = \<lparr>note_id = new_rowid db, title = req_title req,
                      content = req_content req, created_at = Some now\<rparr>
      in (db_note, db @ [db_note]))"

text \<open>
  The sqlite3 driver binds a Python \<open>int\<close> as a signed 64-bit integer, and raises
  \<open>OverflowError\<close> ("Python int too large to convert to SQLite INTEGER") for any other: a
  query with such a parameter never reaches the engine.
\<close>

definition sqlite_int :: "int \<Rightarrow> bool" where
  "sqlite_int i = (- (2 ^ 63) \<le> i \<and> i < 2 ^ 63)"

text \<open>A table of the engine holds 64-bit row ids only.\<close>

definition sqlite_store :: "store \<Rightarrow> bool" where
  "sqlite_store db = list_all (\<lambda>n. sqlite_int (note_id n)) db"

text \<open>
  What ends a request with no result. \<open>HTTPException status_code detail\<close> is raised by a
  handler and answered with that status; \<open>OverflowError\<close> is raised by the driver, caught
  by nothing, and ends the request as an unhandled fault; \<open>ValidationError fields\<close> is
  raised by the request validation, before the handler runs.
\<close>

datatype failure = HTTPException int string | OverflowError | ValidationError "string list"

text \<open>
  \<^verbatim>\<open>
  def read_notes(skip: int = 0, limit: int = 100, db: Session = Depends(database.get_db)):
      notes = db.query(models.Note).offset(skip).limit(limit).all()
      return notes
  \<close>
  Both parameters are any integer: the handler declares no bound. The query is
  \<open>SELECT ... FROM notes LIMIT ? OFFSET ?\<close> with \<open>limit\<close> and \<open>skip\<close> bound as
  parameters; the engine reads a negative offset as 0 and a negative limit as no limit.
  The store is returned as it was.
\<close>

definition read_notes :: "int \<Rightarrow> int \<Rightarrow> store \<Rightarrow> (failure + Note list) \<times> store" where
  "read_notes skip limit db =
     (if \<not> (sqlite_int skip \<and> sqlite_int limit) then (Inl OverflowError, db)
      else
        let rows = drop (nat skip) db;
            notes = (if limit < 0 then rows else take (nat limit) rows)
        in (Inr notes, db))"

text \<open>The defaults of the two query parameters, \<^verbatim>\<open>skip: int = 0, limit: int = 100\<close>.\<close>

definition default_skip :: int where
  "default_skip = 0"

definition default_limit :: int where
  "default_limit = 100"

text \<open>
  \<^verbatim>\<open>
  def delete_note(note_id: int, db: Session = Depends(database.get_db)):
      note = db.query(models.Note).filter(models.Note.id == note_id).first()
      if note is None:
          raise HTTPException(status_code=404, detail="Note not found")
      db.delete(note)
      db.commit()
      return {"status": "success", "message": "Note deleted"}
  \<close>
  The parameter is any integer. The query binds it, so an id outside the 64-bit range
  raises \<open>OverflowError\<close> in the first statement, before the test for \<open>None\<close>.
  \<^verbatim>\<open>db.delete(note)\<close> deletes by primary key, \<open>DELETE FROM notes WHERE id = note.id\<close>.
  The returned dictionary is an association list.
\<close>

definition delete_note ::
  "int \<Rightarrow> store \<Rightarrow> (failure + (string \<times> string) list) \<times> store" where
  "delete_note nid db =
     (if \<not> sqlite_int nid then (Inl OverflowError, db)
      else
        case find (\<lambda>n. note_id n = nid) db of
          None \<Rightarrow> (Inl (HTTPException 404 ''Note not found''), db)
        | Some note \<Rightarrow>
            (Inr [(''status'', ''success''), (''message'', ''Note deleted'')],
             filter (\<lambda>n. note_id n \<noteq> note_id note) db))"

text \<open>
  A history of the table: creates and deletes, in the order the engine serialises them.
  \<open>run\<close> returns the ids the creates were given, in order, and the store left.
\<close>

datatype operation = Create NoteCreate datetime | Delete int

fun run :: "operation list \<Rightarrow> store \<Rightarrow> int list \<times> store" where
  "run [] db = ([], db)"
| "run (Create req now # ops) db =
     (let (n, db') = create_note req now db; (ids, db'') = run ops db'
      in (note_id n # ids, db''))"
| "run (Delete nid # ops) db = run ops (snd (delete_note nid db))"


section \<open>The validation layer: schemas.py\<close>

text \<open>A JSON document as the API receives and sends it (numbers are integers here).\<close>

datatype json =
  JNull | JBool bool | JInt int | JStr string | JArr "json list" | JObj "(string \<times> json) list"

text \<open>The value under a key of an object; of two members with one key the last counts.\<close>

definition member :: "(string \<times> json) list \<Rightarrow> string \<Rightarrow> json option" where
  "member items key = map_of (rev items) key"

fun text_field :: "json option \<Rightarrow> string option" where
  "text_field (Some (JStr s)) = Some s"
| "text_field _ = None"

text \<open>
  Modelled from the spec: \<^verbatim>\<open>schemas.py\<close> is not among the sources (\<^verbatim>\<open>main.py\<close>
  imports it, \<^verbatim>\<open>template.py\<close> creates it). The spec gives the create request as "a
  structure with required title (non-empty text) and required content (text)", and says
  that a payload "missing a required field or with a field of the wrong kind fails
  validation before any storage interaction occurs, with an error identifying the
  offending field(s)". First the title: "required title (non-empty text)".
\<close>

definition title_ok :: "json option \<Rightarrow> bool" where
  "title_ok v = (case text_field v of None \<Rightarrow> False | Some t \<Rightarrow> t \<noteq> [])"

text \<open>Modelled from the spec: "required content (text)".\<close>

definition content_ok :: "json option \<Rightarrow> bool" where
  "content_ok v = (case text_field v of None \<Rightarrow> False | Some c \<Rightarrow> True)"

text \<open>
  Modelled from the spec: the validation of a create request, which fails "with an error
  identifying the offending field(s)", here the list of their names; a body that is not
  an object offends as a whole.
\<close>

definition validate_NoteCreate :: "json \<Rightarrow> string list + NoteCreate" where
  "validate_NoteCreate body =
     (case body of
        JObj items \<Rightarrow>
          (let t = member items ''title''; c = member items ''content'';
               offending = (if title_ok t then [] else [''title''])
                         @ (if content_ok c then [] else [''content''])
           in if offending = []
              then Inr (NoteCreate (the (text_field t)) (the (text_field c)))
              else Inl offending)
      | _ \<Rightarrow> Inl [''body''])"

text \<open>
  \<^verbatim>\<open>@app.post("/notes/", response_model=schemas.NoteResponse)\<close>: the framework
  validates the body against \<open>NoteCreate\<close> and calls the handler only with a validated
  request; a rejected body ends the request with the validation error, the handler and
  the session untouched.
\<close>

definition post_notes :: "datetime \<Rightarrow> json \<Rightarrow> store \<Rightarrow> (failure + Note) \<times> store" where
  "post_notes now body db =
     (case validate_NoteCreate body of
        Inl offending \<Rightarrow> (Inl (ValidationError offending), db)
      | Inr req \<Rightarrow> (let (n, db') = create_note req now db in (Inr n, db')))"


section \<open>The agent bridge: notes_mcp.py\<close>

text \<open>
  What the bridge sees of an HTTP response: the status code and the body as
  \<^verbatim>\<open>response.json()\<close> decodes it, \<open>None\<close> when the body is not JSON.
\<close>

record response =
  status_code :: int
  json_doc :: "json option"

text \<open>
  The outcome of \<^verbatim>\<open>await client.post(...)\<close> or \<^verbatim>\<open>await client.delete(...)\<close>: the
  call raises an \<^verbatim>\<open>httpx.HTTPError\<close> \<open>e\<close>, given by \<open>str(e)\<close>, or returns a response.
\<close>

datatype exchange = HTTPError string | Response response

text \<open>The exceptions of the bridge's own statements that no handler of it catches.\<close>

datatype py_exn = JSONDecodeError | KeyError | TypeError

definition API_BASE_URL :: string where
  "API_BASE_URL = ''http://127.0.0.1:8000''"

text \<open>Python's \<open>str\<close> of an \<open>int\<close>: decimal digits, with a minus sign below zero.\<close>

fun str_nat :: "nat \<Rightarrow> string" where
  "str_nat n =
     (if n < 10 then [''0123456789'' ! n]
      else str_nat (n div 10) @ [''0123456789'' ! (n mod 10)])"

declare str_nat.simps [simp del]

definition str_int :: "int \<Rightarrow> string" where
  "str_int i = (if i < 0 then CHR ''-'' # str_nat (nat (- i)) else str_nat (nat i))"

text \<open>
  \<^verbatim>\<open>response.raise_for_status()\<close> raises an \<^verbatim>\<open>httpx.HTTPStatusError\<close>, which is an
  \<^verbatim>\<open>httpx.HTTPError\<close>, unless the status is 2xx. The text of that error is the
  library's; it is the parameter \<open>status_text\<close>.
\<close>

definition is_success :: "response \<Rightarrow> bool" where
  "is_success r = (200 \<le> status_code r \<and> status_code r \<le> 299)"

definition raise_for_status :: "(response \<Rightarrow> string) \<Rightarrow> response \<Rightarrow> string option" where
  "raise_for_status status_text r = (if is_success r then None else Some (status_text r))"




text \<open>
  \<^verbatim>\<open>
  async def delete_note_by_id(note_id: int) -> str:
      async with httpx.AsyncClient() as client:
          try:
              response = await client.delete(f"{API_BASE_URL}/notes/{note_id}")
              if response.status_code == 404:
                  return f"Error: Note with ID {note_id} was not found."
              response.raise_for_status()
              return f"Note {note_id} has been deleted."
          except httpx.HTTPError as e:
              return f"Error deleting note: {str(e)}"
  \<close>
  \<open>delete\<close> is \<^verbatim>\<open>client.delete\<close>. No statement of the tool raises anything but an
  \<^verbatim>\<open>httpx.HTTPError\<close>, so the result is always a text; it has the type of the other
  tool's result.
\<close>

definition delete_note_by_id ::
  "(response \<Rightarrow> string) \<Rightarrow> (string \<Rightarrow> exchange) \<Rightarrow> int \<Rightarrow> py_exn + string" where
  "delete_note_by_id status_text delete nid =
     (case delete (API_BASE_URL @ ''/notes/'' @ str_int nid) of
        HTTPError e \<Rightarrow> Inr (''Error deleting note: '' @ e)
      | Response r \<Rightarrow>
          if status_code r = 404
          then Inr (''Error: Note with ID '' @ str_int nid @ '' was not found.'')
          else (case raise_for_status status_text r of
                  Some e \<Rightarrow> Inr (''Error deleting note: '' @ e)
                | None \<Rightarrow> Inr (''Note '' @ str_int nid @ '' has been deleted.'')))"


section \<open>Properties of the store\<close>

lemma find_note_id: "find (\<lambda>n. note_id n = nid) db = Some m \<Longrightarrow> note_id m = nid"
  by (induction db) (auto split: if_splits)

lemma find_None_iff_absent:
  "find (\<lambda>n. note_id n = nid) db = None \<longleftrightarrow> nid \<notin> note_id ` set db"
  by (induction db) auto

lemma find_append_absent:
  "find P xs = None \<Longrightarrow> find P (xs @ ys) = find P ys"
  by (induction xs) (auto split: if_splits)

lemma new_rowid_greater:
  assumes "m \<in> set db"
  shows "note_id m < new_rowid db"
proof -
  from assms have "db \<noteq> []" by auto
  moreover from assms have "note_id m \<le> Max (set (map note_id db))"
    by (intro Max_ge) auto
  ultimately show ?thesis by (simp add: new_rowid_def)
qed

lemma new_rowid_positive:
  assumes "wf_store db"
  shows "0 < new_rowid db"
proof (cases db)
  case Nil
  then show ?thesis by (simp add: new_rowid_def)
next
  case (Cons a as)
  then have "a \<in> set db" by simp
  with assms have "0 < note_id a" by (simp add: wf_store_def list_all_iff)
  moreover have "note_id a < new_rowid db" using \<open>a \<in> set db\<close> by (rule new_rowid_greater)
  ultimately show ?thesis by simp
qed

lemma wf_store_Nil: "wf_store []"
  by (simp add: wf_store_def)

lemma wf_store_create:
  assumes "wf_store db"
  shows "wf_store (snd (create_note req now db))"
proof -
  have "sorted_wrt (<) (map note_id db @ [new_rowid db])"
    using assms by (auto simp: wf_store_def sorted_wrt_append new_rowid_greater)
  moreover have "0 < new_rowid db" using assms by (rule new_rowid_positive)
  ultimately show ?thesis
    using assms by (simp add: wf_store_def create_note_def Let_def)
qed

lemma wf_store_filter: "wf_store db \<Longrightarrow> wf_store (filter P db)"
  by (simp add: wf_store_def sorted_wrt_map sorted_wrt_filter list_all_iff)

lemma wf_store_delete:
  assumes "wf_store db"
  shows "wf_store (snd (delete_note nid db))"
  using assms by (simp add: delete_note_def wf_store_filter split: option.splits)

lemma wf_store_distinct: "wf_store db \<Longrightarrow> distinct (map note_id db)"
  by (simp add: wf_store_def strict_sorted_iff)

lemma delete_note_not_found:
  assumes "sqlite_int nid" and "nid \<notin> note_id ` set db"
  shows "delete_note nid db = (Inl (HTTPException 404 ''Note not found''), db)"
proof -
  from assms(2) have "find (\<lambda>n. note_id n = nid) db = None"
    by (simp add: find_None_iff_absent)
  with assms(1) show ?thesis by (simp add: delete_note_def)
qed

lemma delete_note_found:
  assumes "sqlite_int nid" and "nid \<in> note_id ` set db"
  shows "delete_note nid db =
    (Inr [(''status'', ''success''), (''message'', ''Note deleted'')],
     filter (\<lambda>n. note_id n \<noteq> nid) db)"
proof (cases "find (\<lambda>n. note_id n = nid) db")
  case None
  with assms(2) show ?thesis by (simp add: find_None_iff_absent)
next
  case (Some m)
  then have "note_id m = nid" by (rule find_note_id)
  with Some assms(1) show ?thesis by (simp add: delete_note_def)
qed

lemma wf_store_run: "wf_store db \<Longrightarrow> wf_store (snd (run ops db))"
proof (induction ops db rule: run.induct)
  case (1 db)
  then show ?case by simp
next
  case (2 req now ops db)
  have "wf_store (snd (create_note req now db))" using "2.prems" by (rule wf_store_create)
  with "2.IH" [of "create_note req now db" "fst (create_note req now db)" "snd (create_note req now db)"]
  have "wf_store (snd (run ops (snd (create_note req now db))))" by simp
  then show ?case by (simp add: split_beta Let_def)
next
  case (3 nid ops db)
  have "wf_store (snd (delete_note nid db))" using "3.prems" by (rule wf_store_delete)
  with "3.IH" show ?case by simp
qed

section \<open>Creating a note\<close>

text \<open>
  C1. A create request with title \<open>t\<close> and content \<open>c\<close> that passed validation inserts
  exactly one row, at the end of the table, and returns that row as persisted: its id is
  a positive integer, its title is \<open>t\<close>, its content is \<open>c\<close>, and its \<open>created_at\<close> is
  not null.
\<close>

theorem create_note_returns_persisted:
  assumes "wf_store db"
    and "create_note (NoteCreate t c) now db = (n, db')"
  shows "0 < note_id n \<and> title n = t \<and> content n = c \<and> created_at n \<noteq> None
         \<and> db' = db @ [n] \<and> length db' = length db + 1
         \<and> find (\<lambda>m. note_id m = note_id n) db' = Some n"
proof -
  from assms(2) have n: "n = \<lparr>note_id = new_rowid db, title = t, content = c, created_at = Some now\<rparr>"
    and db': "db' = db @ [n]"
    by (auto simp: create_note_def Let_def)
  have pos: "0 < note_id n" using assms(1) n by (simp add: new_rowid_positive)
  have "find (\<lambda>m. note_id m = note_id n) db = None"
  proof -
    have "note_id n \<notin> note_id ` set db"
      using new_rowid_greater [of _ db] n by fastforce
    then show ?thesis by (simp add: find_None_iff_absent)
  qed
  then have "find (\<lambda>m. note_id m = note_id n) db' = Some n"
    by (simp add: db' find_append_absent)
  with pos n db' show ?thesis by simp
qed

theorem create_note_returns_persisted_witness:
  "wf_store [] \<and> create_note (NoteCreate ''A'' ''B'') 7 []
     = (\<lparr>note_id = 1, title = ''A'', content = ''B'', created_at = Some 7\<rparr>,
        [\<lparr>note_id = 1, title = ''A'', content = ''B'', created_at = Some 7\<rparr>])
   \<and> title \<lparr>note_id = 1, title = ''A'', content = ''B'', created_at = Some (7::int)\<rparr> = ''A''"
proof -
  have w: "wf_store []" by (rule wf_store_Nil)
  have c: "create_note (NoteCreate ''A'' ''B'') 7 []
     = (\<lparr>note_id = 1, title = ''A'', content = ''B'', created_at = Some 7\<rparr>,
        [\<lparr>note_id = 1, title = ''A'', content = ''B'', created_at = Some 7\<rparr>])"
    by (simp add: create_note_def new_rowid_def Let_def)
  from create_note_returns_persisted [OF w c] w c show ?thesis by simp
qed

section \<open>Deleting a note\<close>

text \<open>
  C2. An id that no stored note bears is to fail with the 404 exception and leave the
  store as it was. The handler does so for every absent id of the 64-bit range; the id
  9223372036854775808, which no note can bear, ends the request with the driver's
  \<open>OverflowError\<close> instead, the store unchanged.
\<close>

theorem delete_note_absent_overflow:
  "(9223372036854775808::int) \<notin> note_id ` set ([]::store)
   \<and> delete_note 9223372036854775808 [] = (Inl OverflowError, [])
   \<and> delete_note 9223372036854775808 [] \<noteq> (Inl (HTTPException 404 ''Note not found''), [])
   \<and> delete_note 999999 [] = (Inl (HTTPException 404 ''Note not found''), [])"
  by (simp add: delete_note_def sqlite_int_def)

text \<open>
  The stores of the engine: the empty table holds 64-bit row ids, a delete keeps that,
  and so does every history of fewer than \<open>2 ^ 63\<close> operations, whose ids are at most
  the number of its creates.
\<close>

lemma sqlite_store_Nil: "sqlite_store []"
  by (simp add: sqlite_store_def)

lemma sqlite_store_delete: "sqlite_store db \<Longrightarrow> sqlite_store (snd (delete_note nid db))"
  by (simp add: delete_note_def sqlite_store_def list_all_iff split: option.splits)

lemma new_rowid_bounded:
  assumes "0 \<le> k" and "\<forall>m\<in>set db. note_id m \<le> k"
  shows "new_rowid db \<le> k + 1"
proof (cases "db = []")
  case True
  with assms(1) show ?thesis by (simp add: new_rowid_def)
next
  case False
  then have "Max (set (map note_id db)) \<in> set (map note_id db)"
    by (intro Max_in) auto
  with assms(2) have "Max (set (map note_id db)) \<le> k" by auto
  with False show ?thesis by (simp add: new_rowid_def)
qed

lemma run_ids_bounded:
  "0 \<le> k \<Longrightarrow> \<forall>m\<in>set db. note_id m \<le> k \<Longrightarrow>
   \<forall>m\<in>set (snd (run ops db)). note_id m \<le> k + int (length ops)"
proof (induction ops arbitrary: db k)
  case Nil
  then show ?case by simp
next
  case (Cons x ops)
  show ?case
  proof (cases x)
    case (Create req now)
    let ?db' = "snd (create_note req now db)"
    have "new_rowid db \<le> k + 1" using Cons.prems by (rule new_rowid_bounded)
    with Cons.prems(2) have "\<forall>m\<in>set ?db'. note_id m \<le> k + 1"
      by (auto simp: create_note_def Let_def)
    with Cons.prems(1) have "\<forall>m\<in>set (snd (run ops ?db')). note_id m \<le> (k + 1) + int (length ops)"
      by (intro Cons.IH) simp_all
    then have "\<forall>m\<in>set (snd (run ops ?db')). note_id m \<le> k + (1 + int (length ops))"
      by (simp add: add.assoc)
    then show ?thesis by (simp add: Create split_beta Let_def)
  next
    case (Delete nid)
    let ?db' = "snd (delete_note nid db)"
    have "set ?db' \<subseteq> set db"
      by (auto simp: delete_note_def split: option.splits)
    with Cons.prems(2) have "\<forall>m\<in>set ?db'. note_id m \<le> k" by blast
    with Cons.prems(1) have "\<forall>m\<in>set (snd (run ops ?db')). note_id m \<le> k + int (length ops)"
      by (rule Cons.IH)
    then show ?thesis by (auto simp: Delete)
  qed
qed

lemma sqlite_store_run:
  assumes "int (length ops) < 2 ^ 63"
  shows "sqlite_store (snd (run ops []))"
proof -
  have "\<forall>m\<in>set (snd (run ops [])). note_id m \<le> 0 + int (length ops)"
    by (rule run_ids_bounded) simp_all
  moreover have "wf_store (snd (run ops []))" using wf_store_Nil by (rule wf_store_run)
  then have "\<forall>m\<in>set (snd (run ops [])). 0 < note_id m"
    by (simp add: wf_store_def list_all_iff)
  ultimately show ?thesis using assms
    by (auto simp: sqlite_store_def sqlite_int_def list_all_iff)
qed

lemma sqlite_store_member:
  "sqlite_store db \<Longrightarrow> nid \<in> note_id ` set db \<Longrightarrow> sqlite_int nid"
  by (auto simp: sqlite_store_def list_all_iff)

lemma set_read_notes:
  assumes "fst (read_notes skip limit db) = Inr notes"
  shows "set notes \<subseteq> set db"
proof -
  have d: "set (drop (nat skip) db) \<subseteq> set db" by (rule set_drop_subset)
  have t: "set (take (nat limit) (drop (nat skip) db)) \<subseteq> set (drop (nat skip) db)"
    by (rule set_take_subset)
  from assms have "notes = drop (nat skip) db \<or> notes = take (nat limit) (drop (nat skip) db)"
    by (simp add: read_notes_def Let_def split: if_splits)
  with d t show ?thesis by blast
qed

lemma read_notes_default:
  "fst (read_notes default_skip default_limit db) = Inr (take 100 db)"
  by (simp add: read_notes_def default_skip_def default_limit_def sqlite_int_def)

text \<open>
  C3. In every store that holds a note with id \<open>n\<close>, deleting \<open>n\<close> returns the success
  acknowledgment; no list request on the store it leaves, whatever its \<open>skip\<close> and
  \<open>limit\<close>, returns a note with id \<open>n\<close> (and the list request with the default
  parameters does return: the first 100 of the rows left); and deleting \<open>n\<close> again
  raises the 404 exception.
\<close>

theorem delete_note_present:
  assumes "sqlite_store db" and "nid \<in> note_id ` set db"
  shows "fst (delete_note nid db) = Inr [(''status'', ''success''), (''message'', ''Note deleted'')]
    \<and> (\<forall>notes. fst (read_notes skip limit (snd (delete_note nid db))) = Inr notes
          \<longrightarrow> nid \<notin> note_id ` set notes)
    \<and> fst (read_notes default_skip default_limit (snd (delete_note nid db)))
        = Inr (take 100 (filter (\<lambda>n. note_id n \<noteq> nid) db))
    \<and> fst (delete_note nid (snd (delete_note nid db))) = Inl (HTTPException 404 ''Note not found'')"
proof -
  let ?db' = "filter (\<lambda>n. note_id n \<noteq> nid) db"
  have rng: "sqlite_int nid" using assms by (rule sqlite_store_member)
  have del: "delete_note nid db =
      (Inr [(''status'', ''success''), (''message'', ''Note deleted'')], ?db')"
    using rng assms(2) by (rule delete_note_found)
  have gone: "nid \<notin> note_id ` set ?db'" by auto
  have listed: "\<forall>notes. fst (read_notes skip limit ?db') = Inr notes
      \<longrightarrow> nid \<notin> note_id ` set notes"
  proof (intro allI impI)
    fix ns assume "fst (read_notes skip limit ?db') = Inr ns"
    then have "set ns \<subseteq> set ?db'" by (rule set_read_notes)
    with gone show "nid \<notin> note_id ` set ns" by blast
  qed
  have again: "delete_note nid ?db' = (Inl (HTTPException 404 ''Note not found''), ?db')"
    using rng gone by (rule delete_note_not_found)
  have dflt: "fst (read_notes default_skip default_limit ?db') = Inr (take 100 ?db')"
    by (rule read_notes_default)
  have s: "snd (delete_note nid db) = ?db'" by (simp only: del snd_conv)
  have f: "fst (delete_note nid db) = Inr [(''status'', ''success''), (''message'', ''Note deleted'')]"
    by (simp only: del fst_conv)
  have a: "fst (delete_note nid ?db') = Inl (HTTPException 404 ''Note not found'')"
    by (simp only: again fst_conv)
  show ?thesis unfolding s using f listed dflt a by blast
qed

theorem delete_note_present_witness:
  "sqlite_store [\<lparr>note_id = 1, title = ''A'', content = ''B'', created_at = Some 7\<rparr>]
   \<and> (1::int) \<in> note_id ` set [\<lparr>note_id = 1, title = ''A'', content = ''B'', created_at = Some 7\<rparr>]
   \<and> delete_note 1 [\<lparr>note_id = 1, title = ''A'', content = ''B'', created_at = Some 7\<rparr>]
       = (Inr [(''status'', ''success''), (''message'', ''Note deleted'')], [])
   \<and> fst (read_notes default_skip default_limit []) = Inr []
   \<and> fst (delete_note 1 []) = Inl (HTTPException 404 ''Note not found'')"
proof -
  let ?a = "\<lparr>note_id = 1, title = ''A'', content = ''B'', created_at = Some (7::int)\<rparr>"
  have w: "sqlite_store [?a]" by (simp add: sqlite_store_def sqlite_int_def)
  have p: "(1::int) \<in> note_id ` set [?a]" by simp
  have d: "delete_note 1 [?a]
      = (Inr [(''status'', ''success''), (''message'', ''Note deleted'')], [])"
    by (simp add: delete_note_def sqlite_int_def)
  have s: "snd (delete_note 1 [?a]) = []" by (simp only: d snd_conv)
  from delete_note_present [OF w p, of default_skip default_limit, unfolded s]
  have "fst (read_notes default_skip default_limit []) = Inr []
      \<and> fst (delete_note 1 []) = Inl (HTTPException 404 ''Note not found'')"
    by simp
  with w p d show ?thesis by blast
qed

lemma find_filter_other:
  "k \<noteq> nid \<Longrightarrow>
   find (\<lambda>m. note_id m = k) (filter (\<lambda>m. note_id m \<noteq> nid) db) = find (\<lambda>m. note_id m = k) db"
  by (induction db) auto

lemma length_filter_one:
  assumes "distinct (map note_id db)" and "nid \<in> note_id ` set db"
  shows "length (filter (\<lambda>m. note_id m \<noteq> nid) db) + 1 = length db"
  using assms
proof (induction db)
  case Nil
  then show ?case by simp
next
  case (Cons a db)
  show ?case
  proof (cases "note_id a = nid")
    case True
    from Cons.prems(1) have "note_id a \<notin> note_id ` set db" by simp
    with True have "\<forall>m\<in>set db. note_id m \<noteq> nid" by (auto simp: image_iff)
    then have "filter (\<lambda>m. note_id m \<noteq> nid) db = db" by (simp add: filter_id_conv)
    with True show ?thesis by simp
  next
    case False
    with Cons.prems have "distinct (map note_id db)" and "nid \<in> note_id ` set db" by auto
    then have "length (filter (\<lambda>m. note_id m \<noteq> nid) db) + 1 = length db" by (rule Cons.IH)
    with False show ?thesis by simp
  qed
qed

lemma delete_note_success:
  assumes "delete_note nid db = (Inr r, db')"
  shows "sqlite_int nid \<and> nid \<in> note_id ` set db \<and> db' = filter (\<lambda>m. note_id m \<noteq> nid) db"
proof -
  have rng: "sqlite_int nid"
  proof (rule ccontr)
    assume "\<not> sqlite_int nid"
    with assms show False by (simp add: delete_note_def)
  qed
  have mem: "nid \<in> note_id ` set db"
  proof (rule ccontr)
    assume "nid \<notin> note_id ` set db"
    with rng have "delete_note nid db = (Inl (HTTPException 404 ''Note not found''), db)"
      by (rule delete_note_not_found)
    with assms show False by simp
  qed
  from rng mem assms show ?thesis by (simp add: delete_note_found)
qed

text \<open>
  C10. A successful delete of \<open>n\<close> removes the row with id \<open>n\<close> and nothing else: the
  store left is the old one without that row, in the same order; a row with another id is
  in the new store exactly when it was in the old one, all four fields as they were;
  looking up any other id gives the same row as before; and exactly one row is gone.
\<close>

theorem delete_note_frame:
  assumes "wf_store db" and "delete_note nid db = (Inr r, db')"
  shows "nid \<in> note_id ` set db
    \<and> db' = filter (\<lambda>m. note_id m \<noteq> nid) db
    \<and> (\<forall>m. note_id m \<noteq> nid \<longrightarrow> (m \<in> set db' \<longleftrightarrow> m \<in> set db))
    \<and> (\<forall>k. k \<noteq> nid \<longrightarrow> find (\<lambda>m. note_id m = k) db' = find (\<lambda>m. note_id m = k) db)
    \<and> nid \<notin> note_id ` set db'
    \<and> length db' + 1 = length db"
proof -
  from assms(2) have mem: "nid \<in> note_id ` set db"
    and db': "db' = filter (\<lambda>m. note_id m \<noteq> nid) db"
    by (simp_all add: delete_note_success)
  have "distinct (map note_id db)" using assms(1) by (rule wf_store_distinct)
  then have len: "length db' + 1 = length db"
    unfolding db' using mem by (rule length_filter_one)
  have other: "\<forall>k. k \<noteq> nid \<longrightarrow> find (\<lambda>m. note_id m = k) db' = find (\<lambda>m. note_id m = k) db"
    by (simp add: db' find_filter_other)
  have rows: "\<forall>m. note_id m \<noteq> nid \<longrightarrow> (m \<in> set db' \<longleftrightarrow> m \<in> set db)"
    by (simp add: db')
  have gone: "nid \<notin> note_id ` set db'" by (auto simp: db')
  from mem db' rows other gone len show ?thesis by blast
qed

theorem delete_note_frame_witness:
  "wf_store [\<lparr>note_id = 1, title = ''A'', content = ''B'', created_at = Some 7\<rparr>,
             \<lparr>note_id = 2, title = ''C'', content = ''D'', created_at = Some 8\<rparr>]
   \<and> delete_note 1 [\<lparr>note_id = 1, title = ''A'', content = ''B'', created_at = Some 7\<rparr>,
             \<lparr>note_id = 2, title = ''C'', content = ''D'', created_at = Some 8\<rparr>]
      = (Inr [(''status'', ''success''), (''message'', ''Note deleted'')],
         [\<lparr>note_id = 2, title = ''C'', content = ''D'', created_at = Some 8\<rparr>])
   \<and> length [\<lparr>note_id = 2, title = ''C'', content = ''D'', created_at = Some (8::int)\<rparr>] + 1
      = length [\<lparr>note_id = 1, title = ''A'', content = ''B'', created_at = Some (7::int)\<rparr>,
             \<lparr>note_id = 2, title = ''C'', content = ''D'', created_at = Some 8\<rparr>]"
proof -
  let ?a = "\<lparr>note_id = 1, title = ''A'', content = ''B'', created_at = Some (7::int)\<rparr>"
  let ?b = "\<lparr>note_id = 2, title = ''C'', content = ''D'', created_at = Some (8::int)\<rparr>"
  have w: "wf_store [?a, ?b]" by (simp add: wf_store_def)
  have d: "delete_note 1 [?a, ?b]
    = (Inr [(''status'', ''success''), (''message'', ''Note deleted'')], [?b])"
    by (simp add: delete_note_def sqlite_int_def)
  from delete_note_frame [OF w d] have "length [?b] + 1 = length [?a, ?b]" by blast
  with w d show ?thesis by blast
qed

section \<open>Listing notes\<close>

text \<open>
  C4. For every store of \<open>N \<le> 100\<close> notes, the list request with the default parameters
  returns the \<open>N\<close> notes of the store; with \<open>limit = 1\<close> it returns exactly one entry, the
  first row, when the store is not empty; with \<open>skip = N\<close> it returns the empty
  sequence; and on the empty store it returns the empty sequence, not an error.
\<close>

theorem read_notes_counts:
  assumes "length db \<le> 100"
  shows "fst (read_notes default_skip default_limit db) = Inr db
    \<and> (\<exists>ns. fst (read_notes default_skip default_limit db) = Inr ns \<and> length ns = length db)
    \<and> (db \<noteq> [] \<longrightarrow> fst (read_notes default_skip 1 db) = Inr [hd db])
    \<and> fst (read_notes (int (length db)) default_limit db) = Inr []
    \<and> fst (read_notes default_skip default_limit []) = Inr []"
proof -
  have all: "fst (read_notes default_skip default_limit db) = Inr db"
    using assms by (simp add: read_notes_default)
  have one: "db \<noteq> [] \<longrightarrow> fst (read_notes default_skip 1 db) = Inr [hd db]"
    by (cases db) (simp_all add: read_notes_def default_skip_def sqlite_int_def)
  have "sqlite_int (int (length db))"
    using assms by (simp add: sqlite_int_def)
  then have none: "fst (read_notes (int (length db)) default_limit db) = Inr []"
    by (simp add: read_notes_def default_limit_def sqlite_int_def)
  have empty: "fst (read_notes default_skip default_limit []) = Inr []"
    by (simp add: read_notes_default)
  from all one none empty show ?thesis by simp
qed

theorem read_notes_counts_witness:
  "length [\<lparr>note_id = 1, title = ''A'', content = ''B'', created_at = Some (7::int)\<rparr>,
           \<lparr>note_id = 2, title = ''C'', content = ''D'', created_at = Some 8\<rparr>] \<le> 100
   \<and> fst (read_notes default_skip default_limit
        [\<lparr>note_id = 1, title = ''A'', content = ''B'', created_at = Some 7\<rparr>,
         \<lparr>note_id = 2, title = ''C'', content = ''D'', created_at = Some 8\<rparr>])
      = Inr [\<lparr>note_id = 1, title = ''A'', content = ''B'', created_at = Some 7\<rparr>,
         \<lparr>note_id = 2, title = ''C'', content = ''D'', created_at = Some 8\<rparr>]
   \<and> fst (read_notes default_skip 1
        [\<lparr>note_id = 1, title = ''A'', content = ''B'', created_at = Some 7\<rparr>,
         \<lparr>note_id = 2, title = ''C'', content = ''D'', created_at = Some 8\<rparr>])
      = Inr [\<lparr>note_id = 1, title = ''A'', content = ''B'', created_at = Some 7\<rparr>]
   \<and> fst (read_notes 2 default_limit
        [\<lparr>note_id = 1, title = ''A'', content = ''B'', created_at = Some 7\<rparr>,
         \<lparr>note_id = 2, title = ''C'', content = ''D'', created_at = Some 8\<rparr>]) = Inr []"
proof -
  let ?a = "\<lparr>note_id = 1, title = ''A'', content = ''B'', created_at = Some (7::int)\<rparr>"
  let ?b = "\<lparr>note_id = 2, title = ''C'', content = ''D'', created_at = Some (8::int)\<rparr>"
  have l: "length [?a, ?b] \<le> 100" by simp
  from read_notes_counts [OF l] l show ?thesis by simp
qed

text \<open>
  C7. For every store and every \<open>skip\<close> and \<open>limit\<close>, a list request leaves the store as
  it was, and a second list request with the same parameters, made on the store the first
  one left, gives the same result (the same sequence, or the same failure for a parameter
  the driver refuses) and again leaves the store as it was.
\<close>

theorem read_notes_idempotent:
  "snd (read_notes skip limit db) = db
   \<and> fst (read_notes skip limit (snd (read_notes skip limit db))) = fst (read_notes skip limit db)
   \<and> snd (read_notes skip limit (snd (read_notes skip limit db))) = db"
proof -
  have "snd (read_notes skip limit db) = db"
    by (simp add: read_notes_def Let_def)
  then show ?thesis by simp
qed

section \<open>The ids of a history\<close>





section \<open>Validation of the create request\<close>

lemma validate_offending:
  "validate_NoteCreate (JObj items) =
     (if title_ok (member items ''title'') \<and> content_ok (member items ''content'')
      then Inr (NoteCreate (the (text_field (member items ''title'')))
                           (the (text_field (member items ''content''))))
      else Inl ((if title_ok (member items ''title'') then [] else [''title''])
              @ (if content_ok (member items ''content'') then [] else [''content''])))"
  by (simp add: validate_NoteCreate_def Let_def)

lemma title_ok_iff: "title_ok v \<longleftrightarrow> (\<exists>t. v = Some (JStr t) \<and> t \<noteq> [])"
  by (cases v rule: text_field.cases) (simp_all add: title_ok_def)

lemma content_ok_iff: "content_ok v \<longleftrightarrow> (\<exists>c. v = Some (JStr c))"
  by (cases v rule: text_field.cases) (simp_all add: content_ok_def)


text \<open>
  C5. A create request whose body is malformed is rejected by the validation, before the
  handler and the store are reached: when the title is missing, is not text or is the
  empty text, or the content is missing or is not text, the request ends with a
  \<open>ValidationError\<close> that names exactly the offending fields, at least one, and the
  store is the one it was.
\<close>

theorem malformed_create_rejected:
  assumes "\<not> (\<exists>t. member items ''title'' = Some (JStr t) \<and> t \<noteq> [])
         \<or> \<not> (\<exists>c. member items ''content'' = Some (JStr c))"
  shows "\<exists>offending.
      post_notes now (JObj items) db = (Inl (ValidationError offending), db)
    \<and> offending \<noteq> []
    \<and> set offending \<subseteq> {''title'', ''content''}
    \<and> (''title'' \<in> set offending
         \<longleftrightarrow> \<not> (\<exists>t. member items ''title'' = Some (JStr t) \<and> t \<noteq> []))
    \<and> (''content'' \<in> set offending
         \<longleftrightarrow> \<not> (\<exists>c. member items ''content'' = Some (JStr c)))"
proof -
  let ?off = "(if title_ok (member items ''title'') then [] else [''title''])
            @ (if content_ok (member items ''content'') then [] else [''content''])"
  from assms have bad: "\<not> (title_ok (member items ''title'') \<and> content_ok (member items ''content''))"
    by (simp add: title_ok_iff content_ok_iff)
  then have v: "validate_NoteCreate (JObj items) = Inl ?off"
    by (simp only: validate_offending if_False)
  then have p: "post_notes now (JObj items) db = (Inl (ValidationError ?off), db)"
    by (simp add: post_notes_def)
  have ne: "?off \<noteq> []" using bad by auto
  have sub: "set ?off \<subseteq> {''title'', ''content''}" by simp
  have t: "''title'' \<in> set ?off
      \<longleftrightarrow> \<not> (\<exists>t. member items ''title'' = Some (JStr t) \<and> t \<noteq> [])"
    by (simp add: title_ok_iff)
  have c: "''content'' \<in> set ?off \<longleftrightarrow> \<not> (\<exists>c. member items ''content'' = Some (JStr c))"
    by (simp add: content_ok_iff)
  from p ne sub t c show ?thesis by blast
qed

theorem malformed_create_rejected_witness:
  "\<not> (\<exists>t. member [(''title'', JStr [])] ''title'' = Some (JStr t) \<and> t \<noteq> [])
   \<and> post_notes 7 (JObj [(''title'', JStr [])]) []
       = (Inl (ValidationError [''title'', ''content'']), [])
   \<and> post_notes 7 (JObj [(''title'', JInt 3), (''content'', JStr ''B'')]) []
       = (Inl (ValidationError [''title'']), [])"
proof -
  have h: "\<not> (\<exists>t. member [(''title'', JStr [])] ''title'' = Some (JStr t) \<and> t \<noteq> [])"
    by (simp add: member_def)
  then have h': "\<not> (\<exists>t. member [(''title'', JStr [])] ''title'' = Some (JStr t) \<and> t \<noteq> [])
         \<or> \<not> (\<exists>c. member [(''title'', JStr [])] ''content'' = Some (JStr c))"
    by (rule disjI1)
  from malformed_create_rejected [OF h', of 7 "[]"]
  obtain offending where "post_notes 7 (JObj [(''title'', JStr [])]) [] = (Inl (ValidationError offending), [])"
    by blast
  moreover have "post_notes 7 (JObj [(''title'', JStr [])]) []
       = (Inl (ValidationError [''title'', ''content'']), [])"
    by (simp add: post_notes_def validate_offending member_def title_ok_def content_ok_def)
  moreover have "post_notes 7 (JObj [(''title'', JInt 3), (''content'', JStr ''B'')]) []
       = (Inl (ValidationError [''title'']), [])"
    by (simp add: post_notes_def validate_offending member_def title_ok_def content_ok_def)
  ultimately show ?thesis using h by blast
qed

section \<open>The tools of the bridge\<close>

lemma str_int_5: "str_int 5 = ''5''"
  by (simp add: str_int_def str_nat.simps)

text \<open>
  C9. For every id and every outcome of the HTTP request, the delete tool returns a
  text and raises nothing. The text is one of three: the success text when the response
  is 2xx, the not-found text when the response has status 404, and the failure text,
  with the error's message, when the request raised or the response has any other
  status. The three differ whatever the id and the message: the not-found text is
  neither the success text nor a failure text, and the success text is no failure text.
\<close>

theorem delete_note_by_id_outcomes:
  "(\<exists>text. delete_note_by_id status_text delete nid = Inr text)
   \<and> (delete_note_by_id status_text delete nid
          = Inr (''Note '' @ str_int nid @ '' has been deleted.'')
      \<or> delete_note_by_id status_text delete nid
          = Inr (''Error: Note with ID '' @ str_int nid @ '' was not found.'')
      \<or> (\<exists>e. delete_note_by_id status_text delete nid = Inr (''Error deleting note: '' @ e)))
   \<and> (\<forall>r. delete (API_BASE_URL @ ''/notes/'' @ str_int nid) = Response r \<and> status_code r = 404
         \<longrightarrow> delete_note_by_id status_text delete nid
             = Inr (''Error: Note with ID '' @ str_int nid @ '' was not found.''))
   \<and> (\<forall>r. delete (API_BASE_URL @ ''/notes/'' @ str_int nid) = Response r \<and> is_success r
         \<longrightarrow> delete_note_by_id status_text delete nid
             = Inr (''Note '' @ str_int nid @ '' has been deleted.''))
   \<and> (\<forall>r. delete (API_BASE_URL @ ''/notes/'' @ str_int nid) = Response r
           \<and> status_code r \<noteq> 404 \<and> \<not> is_success r
         \<longrightarrow> delete_note_by_id status_text delete nid
             = Inr (''Error deleting note: '' @ status_text r))
   \<and> (\<forall>e. delete (API_BASE_URL @ ''/notes/'' @ str_int nid) = HTTPError e
         \<longrightarrow> delete_note_by_id status_text delete nid = Inr (''Error deleting note: '' @ e))
   \<and> (\<forall>a b e. ''Error: Note with ID '' @ a @ '' was not found.'' \<noteq> ''Note '' @ b @ '' has been deleted.''
         \<and> ''Error: Note with ID '' @ a @ '' was not found.'' \<noteq> ''Error deleting note: '' @ e
         \<and> ''Note '' @ b @ '' has been deleted.'' \<noteq> ''Error deleting note: '' @ e)"
proof -
  let ?ex = "delete (API_BASE_URL @ ''/notes/'' @ str_int nid)"
  let ?res = "delete_note_by_id status_text delete nid"
  have raised: "\<forall>e. ?ex = HTTPError e \<longrightarrow> ?res = Inr (''Error deleting note: '' @ e)"
    by (simp add: delete_note_by_id_def)
  have nf: "\<forall>r. ?ex = Response r \<and> status_code r = 404
      \<longrightarrow> ?res = Inr (''Error: Note with ID '' @ str_int nid @ '' was not found.'')"
    by (simp add: delete_note_by_id_def)
  have ok: "\<forall>r. ?ex = Response r \<and> is_success r
      \<longrightarrow> ?res = Inr (''Note '' @ str_int nid @ '' has been deleted.'')"
    by (auto simp: delete_note_by_id_def raise_for_status_def is_success_def)
  have other: "\<forall>r. ?ex = Response r \<and> status_code r \<noteq> 404 \<and> \<not> is_success r
      \<longrightarrow> ?res = Inr (''Error deleting note: '' @ status_text r)"
    by (simp add: delete_note_by_id_def raise_for_status_def)
  have three: "?res = Inr (''Note '' @ str_int nid @ '' has been deleted.'')
      \<or> ?res = Inr (''Error: Note with ID '' @ str_int nid @ '' was not found.'')
      \<or> (\<exists>e. ?res = Inr (''Error deleting note: '' @ e))"
  proof (cases ?ex)
    case (HTTPError e)
    with raised show ?thesis by blast
  next
    case (Response r)
    with nf ok other show ?thesis by blast
  qed
  then have returns: "\<exists>text. ?res = Inr text" by blast
  have differ: "\<forall>a b e. ''Error: Note with ID '' @ a @ '' was not found.'' \<noteq> ''Note '' @ b @ '' has been deleted.''
         \<and> ''Error: Note with ID '' @ a @ '' was not found.'' \<noteq> ''Error deleting note: '' @ e
         \<and> ''Note '' @ b @ '' has been deleted.'' \<noteq> ''Error deleting note: '' @ e"
    by simp
  from returns three nf ok other raised differ show ?thesis by blast
qed

theorem delete_note_by_id_outcomes_witness:
  "delete_note_by_id (\<lambda>r. ''Client error'')
      (\<lambda>url. Response \<lparr>status_code = 404, json_doc = Some (JObj [(''detail'', JStr ''Note not found'')])\<rparr>) 5
     = Inr ''Error: Note with ID 5 was not found.''
   \<and> delete_note_by_id (\<lambda>r. ''Client error'') (\<lambda>url. HTTPError ''All connection attempts failed'') 5
     = Inr ''Error deleting note: All connection attempts failed''"
proof -
  let ?r = "\<lparr>status_code = 404, json_doc = Some (JObj [(''detail'', JStr ''Note not found'')])\<rparr>"
  have "(\<lambda>url. Response ?r) (API_BASE_URL @ ''/notes/'' @ str_int 5) = Response ?r
      \<and> status_code ?r = 404" by simp
  with delete_note_by_id_outcomes [of "\<lambda>r. ''Client error''" "\<lambda>url. Response ?r" 5]
  have "delete_note_by_id (\<lambda>r. ''Client error'') (\<lambda>url. Response ?r) 5
      = Inr (''Error: Note with ID '' @ str_int 5 @ '' was not found.'')" by blast
  then have a: "delete_note_by_id (\<lambda>r. ''Client error'') (\<lambda>url. Response ?r) 5
      = Inr ''Error: Note with ID 5 was not found.''" by (simp add: str_int_5)
  have b: "delete_note_by_id (\<lambda>r. ''Client error'') (\<lambda>url. HTTPError ''All connection attempts failed'') 5
     = Inr ''Error deleting note: All connection attempts failed''"
    by (simp add: delete_note_by_id_def)
  from a b show ?thesis by blast
qed








end
